theory Spec2Isabelle
  imports Complex_Main
begin

section \<open>Python values and the operations the scraper applies to them\<close>

text \<open>
  The extraction core of \<^verbatim>\<open>scraper_makro.py\<close> works on the document that
  \<^verbatim>\<open>response.json()\<close> returns: \<^verbatim>\<open>None\<close>, booleans, unbounded integers,
  floats, strings, lists and dictionaries with string keys. A dictionary is an association
  list in insertion order; the keys of a dictionary that comes from JSON are distinct.

  Floats are modelled by exact rationals: binary rounding, infinities, NaN and
  \<^verbatim>\<open>OverflowError\<close> are outside the model. Strings are lists of 8-bit characters
  (a non-ASCII character is its UTF-8 bytes); the character classes of Python
  (\<^verbatim>\<open>\d\<close>, whitespace, \<^verbatim>\<open>lower\<close>) are modelled on ASCII.
\<close>

datatype pyval =
    PNone
  | PBool bool
  | PInt int
  | PFloat rat
  | PStr string
  | PList "pyval list"
  | PDict "(string \<times> pyval) list"

datatype pyerr =
  TypeError | ValueError | ZeroDivisionError | AttributeError | KeyError | IndexError

text \<open>Sequencing of a computation that may raise: the first exception wins.\<close>

definition bindE :: "pyerr + 'a \<Rightarrow> ('a \<Rightarrow> pyerr + 'b) \<Rightarrow> pyerr + 'b" where
  "bindE m f = (case m of Inl e \<Rightarrow> Inl e | Inr x \<Rightarrow> f x)"

text \<open>Truth value testing (\<^verbatim>\<open>if x\<close>, \<^verbatim>\<open>not x\<close>, \<^verbatim>\<open>x or y\<close>).\<close>

fun truthy :: "pyval \<Rightarrow> bool" where
  "truthy PNone = False"
| "truthy (PBool b) = b"
| "truthy (PInt i) = (i \<noteq> 0)"
| "truthy (PFloat q) = (q \<noteq> 0)"
| "truthy (PStr s) = (s \<noteq> [])"
| "truthy (PList xs) = (xs \<noteq> [])"
| "truthy (PDict kvs) = (kvs \<noteq> [])"

text \<open>The numeric tower: \<^verbatim>\<open>bool\<close> is a subclass of \<^verbatim>\<open>int\<close>.\<close>

fun num_of :: "pyval \<Rightarrow> rat option" where
  "num_of (PBool b) = Some (if b then 1 else 0)"
| "num_of (PInt i) = Some (of_int i)"
| "num_of (PFloat q) = Some q"
| "num_of PNone = None"
| "num_of (PStr s) = None"
| "num_of (PList xs) = None"
| "num_of (PDict kvs) = None"

fun int_of :: "pyval \<Rightarrow> int option" where
  "int_of (PBool b) = Some (if b then 1 else 0)"
| "int_of (PInt i) = Some i"
| "int_of (PFloat q) = None"
| "int_of PNone = None"
| "int_of (PStr s) = None"
| "int_of (PList xs) = None"
| "int_of (PDict kvs) = None"

text \<open>\<^verbatim>\<open>isinstance(x, (int, float))\<close>, \<^verbatim>\<open>isinstance(x, dict)\<close>,
  \<^verbatim>\<open>isinstance(x, list)\<close>.\<close>

definition is_number :: "pyval \<Rightarrow> bool" where
  "is_number v = (num_of v \<noteq> None)"

fun is_dict :: "pyval \<Rightarrow> bool" where
  "is_dict (PDict kvs) = True"
| "is_dict PNone = False"
| "is_dict (PBool b) = False"
| "is_dict (PInt i) = False"
| "is_dict (PFloat q) = False"
| "is_dict (PStr s) = False"
| "is_dict (PList xs) = False"

text \<open>Equality \<^verbatim>\<open>a == b\<close>: numbers compare by value across \<^verbatim>\<open>bool\<close>,
  \<^verbatim>\<open>int\<close> and \<^verbatim>\<open>float\<close>, lists element by element, dictionaries
  key by key whatever the order.\<close>

fun py_eq :: "pyval \<Rightarrow> pyval \<Rightarrow> bool" where
  "py_eq PNone b = (b = PNone)"
| "py_eq (PStr s) b = (b = PStr s)"
| "py_eq (PList xs) (PList ys) = list_all2 py_eq xs ys"
| "py_eq (PList xs) b = False"
| "py_eq (PDict xs) (PDict ys) =
     (length xs = length ys \<and>
      list_all (\<lambda>kv. case map_of ys (fst kv) of None \<Rightarrow> False | Some w \<Rightarrow> py_eq (snd kv) w) xs)"
| "py_eq (PDict xs) b = False"
| "py_eq a b = (case num_of b of None \<Rightarrow> False | Some y \<Rightarrow> num_of a = Some y)"


section \<open>Dictionaries, iteration and attribute access\<close>

text \<open>\<^verbatim>\<open>d[k] = v\<close> on a dictionary: an existing key keeps its place.\<close>

fun dict_set :: "string \<Rightarrow> pyval \<Rightarrow> (string \<times> pyval) list \<Rightarrow> (string \<times> pyval) list" where
  "dict_set k v [] = [(k, v)]"
| "dict_set k v (kv # r) = (if fst kv = k then (k, v) # r else kv # dict_set k v r)"

text \<open>\<^verbatim>\<open>d.get(k, default)\<close> on a value known to be a dictionary (the record in
  progress), and the method call \<^verbatim>\<open>x.get(k, default)\<close> on an arbitrary value:
  only a dictionary has the attribute.\<close>

definition items_get :: "(string \<times> pyval) list \<Rightarrow> string \<Rightarrow> pyval \<Rightarrow> pyval" where
  "items_get d k dflt = (case map_of d k of None \<Rightarrow> dflt | Some v \<Rightarrow> v)"

fun dict_get :: "pyval \<Rightarrow> string \<Rightarrow> pyval \<Rightarrow> pyerr + pyval" where
  "dict_get (PDict kvs) k dflt = Inr (items_get kvs k dflt)"
| "dict_get PNone k dflt = Inl AttributeError"
| "dict_get (PBool b) k dflt = Inl AttributeError"
| "dict_get (PInt i) k dflt = Inl AttributeError"
| "dict_get (PFloat q) k dflt = Inl AttributeError"
| "dict_get (PStr s) k dflt = Inl AttributeError"
| "dict_get (PList xs) k dflt = Inl AttributeError"

text \<open>\<^verbatim>\<open>for x in v\<close>: a string yields its characters, a list its elements, a
  dictionary its keys; \<^verbatim>\<open>None\<close> and numbers are not iterable.\<close>

fun py_iter :: "pyval \<Rightarrow> pyerr + pyval list" where
  "py_iter (PStr s) = Inr (map (\<lambda>c. PStr [c]) s)"
| "py_iter (PList xs) = Inr xs"
| "py_iter (PDict kvs) = Inr (map (\<lambda>kv. PStr (fst kv)) kvs)"
| "py_iter PNone = Inl TypeError"
| "py_iter (PBool b) = Inl TypeError"
| "py_iter (PInt i) = Inl TypeError"
| "py_iter (PFloat q) = Inl TypeError"

section \<open>Strings\<close>

definition is_digit :: "char \<Rightarrow> bool" where
  "is_digit c = (c \<in> set ''0123456789'')"

definition is_space :: "char \<Rightarrow> bool" where
  "is_space c = (c \<in> set [CHR '' '', CHR 0x09, CHR 0x0A, CHR 0x0B, CHR 0x0C, CHR 0x0D,
                            CHR 0x1C, CHR 0x1D, CHR 0x1E, CHR 0x1F])"

definition digit_val :: "char \<Rightarrow> nat" where
  "digit_val c = of_char c - 48"

definition str_strip :: "string \<Rightarrow> string" where
  "str_strip s = rev (dropWhile is_space (rev (dropWhile is_space s)))"

definition lower_char :: "char \<Rightarrow> char" where
  "lower_char c =
     (case map_of (zip ''ABCDEFGHIJKLMNOPQRSTUVWXYZ'' ''abcdefghijklmnopqrstuvwxyz'') c of
        None \<Rightarrow> c
      | Some l \<Rightarrow> l)"

definition str_lower :: "string \<Rightarrow> string" where
  "str_lower s = map lower_char s"

fun starts_with :: "string \<Rightarrow> string \<Rightarrow> bool" where
  "starts_with [] s = True"
| "starts_with (p # ps) [] = False"
| "starts_with (p # ps) (c # cs) = (p = c \<and> starts_with ps cs)"

text \<open>\<^verbatim>\<open>k in s\<close> for two strings.\<close>

fun is_substr :: "string \<Rightarrow> string \<Rightarrow> bool" where
  "is_substr k [] = (k = [])"
| "is_substr k (c # cs) = (starts_with k (c # cs) \<or> is_substr k cs)"

text \<open>\<^verbatim>\<open>s.replace(old, new)\<close> for a non-empty \<^verbatim>\<open>old\<close>: the occurrences are
  replaced from left to right, without overlap.\<close>

function str_replace :: "string \<Rightarrow> string \<Rightarrow> string \<Rightarrow> string" where
  "str_replace old new s =
     (if s = [] \<or> old = [] then s
      else if starts_with old s then new @ str_replace old new (drop (length old) s)
      else hd s # str_replace old new (tl s))"
  by pat_completeness auto
termination
  by (relation "measure (\<lambda>(old, new, s). length s)") auto

text \<open>\<^verbatim>\<open>sep.join(xs)\<close> and \<^verbatim>\<open>s.split()\<close> (runs of whitespace separate
  the words).\<close>

fun str_join :: "string \<Rightarrow> string list \<Rightarrow> string" where
  "str_join sep [] = []"
| "str_join sep [x] = x"
| "str_join sep (x # y # r) = x @ sep @ str_join sep (y # r)"

function str_split :: "string \<Rightarrow> string list" where
  "str_split s =
     (let t = dropWhile is_space s
      in if t = [] then []
         else takeWhile (\<lambda>c. \<not> is_space c) t # str_split (dropWhile (\<lambda>c. \<not> is_space c) t))"
  by pat_completeness auto
termination
proof (relation "measure length")
  show "wf (measure length)" by simp
next
  fix s t :: string
  assume t: "t = dropWhile is_space s" and ne: "t \<noteq> []"
  have "length (dropWhile (\<lambda>c. \<not> is_space c) t) < length t"
  proof (cases t)
    case Nil
    with ne show ?thesis by simp
  next
    case (Cons c cs)
    have "\<not> is_space (hd (dropWhile is_space s))"
      using hd_dropWhile [of is_space s] t ne by simp
    with Cons t have "\<not> is_space c" by simp
    with Cons have "dropWhile (\<lambda>c. \<not> is_space c) t = dropWhile (\<lambda>c. \<not> is_space c) cs" by simp
    moreover have "length (dropWhile (\<lambda>c. \<not> is_space c) cs) \<le> length cs"
      by (rule length_dropWhile_le)
    ultimately show ?thesis using Cons by simp
  qed
  moreover have "length t \<le> length s" using t by (simp add: length_dropWhile_le)
  ultimately show "(dropWhile (\<lambda>c. \<not> is_space c) t, s) \<in> measure length" by simp
qed

text \<open>\<^verbatim>\<open>float(s)\<close> for a string: surrounding whitespace, a sign, digits with an
  optional fraction, an optional exponent. Underscore grouping and the spellings of
  infinity and NaN are outside the model.\<close>

definition dec_nat :: "string \<Rightarrow> nat" where
  "dec_nat s = foldl (\<lambda>n c. 10 * n + digit_val c) 0 s"

definition parse_exponent :: "string \<Rightarrow> int option" where
  "parse_exponent s =
     (case s of
        [] \<Rightarrow> Some 0
      | e # r \<Rightarrow>
          if e = CHR ''e'' \<or> e = CHR ''E'' then
            (let neg = (r \<noteq> [] \<and> hd r = CHR ''-'');
                 ds = (if r \<noteq> [] \<and> (hd r = CHR ''-'' \<or> hd r = CHR ''+'') then tl r else r)
             in if ds \<noteq> [] \<and> list_all is_digit ds
                then Some (if neg then - int (dec_nat ds) else int (dec_nat ds))
                else None)
          else None)"

definition pow10 :: "int \<Rightarrow> rat" where
  "pow10 e = (if 0 \<le> e then 10 ^ nat e else 1 / 10 ^ nat (- e))"

definition parse_float :: "string \<Rightarrow> rat option" where
  "parse_float s0 =
     (let s = str_strip s0;
          neg = (s \<noteq> [] \<and> hd s = CHR ''-'');
          s1 = (if s \<noteq> [] \<and> (hd s = CHR ''-'' \<or> hd s = CHR ''+'') then tl s else s);
          ip = takeWhile is_digit s1;
          r1 = dropWhile is_digit s1;
          dot = (r1 \<noteq> [] \<and> hd r1 = CHR ''.'');
          fp = (if dot then takeWhile is_digit (tl r1) else []);
          r2 = (if dot then dropWhile is_digit (tl r1) else r1)
      in if ip = [] \<and> fp = [] then None
         else (case parse_exponent r2 of
                 None \<Rightarrow> None
               | Some e \<Rightarrow>
                   Some ((if neg then - 1 else 1)
                         * (of_nat (dec_nat ip) + of_nat (dec_nat fp) / 10 ^ length fp)
                         * pow10 e)))"

text \<open>\<^verbatim>\<open>float(x)\<close>: a number converts, a string is parsed or raises
  \<^verbatim>\<open>ValueError\<close>, anything else raises \<^verbatim>\<open>TypeError\<close>.\<close>

fun py_float :: "pyval \<Rightarrow> pyerr + rat" where
  "py_float (PStr s) = (case parse_float s of None \<Rightarrow> Inl ValueError | Some q \<Rightarrow> Inr q)"
| "py_float PNone = Inl TypeError"
| "py_float (PList xs) = Inl TypeError"
| "py_float (PDict kvs) = Inl TypeError"
| "py_float (PBool b) = Inr (if b then 1 else 0)"
| "py_float (PInt i) = Inr (of_int i)"
| "py_float (PFloat q) = Inr q"

section \<open>Arithmetic\<close>

text \<open>True division \<^verbatim>\<open>a / b\<close>: defined on numbers only, always a float.\<close>

definition py_truediv :: "pyval \<Rightarrow> pyval \<Rightarrow> pyerr + pyval" where
  "py_truediv a b =
     (case num_of a of
        None \<Rightarrow> Inl TypeError
      | Some x \<Rightarrow>
          (case num_of b of
             None \<Rightarrow> Inl TypeError
           | Some y \<Rightarrow> if y = 0 then Inl ZeroDivisionError else Inr (PFloat (x / y))))"

text \<open>\<^verbatim>\<open>a * b\<close>: numbers multiply (an \<^verbatim>\<open>int\<close> when both are), a string or a list
  times an \<^verbatim>\<open>int\<close> is repeated, anything else raises \<^verbatim>\<open>TypeError\<close>.\<close>

definition py_repeat :: "pyval \<Rightarrow> int \<Rightarrow> pyerr + pyval" where
  "py_repeat v n =
     (case v of
        PStr s \<Rightarrow> Inr (PStr (concat (replicate (nat n) s)))
      | PList xs \<Rightarrow> Inr (PList (concat (replicate (nat n) xs)))
      | _ \<Rightarrow> Inl TypeError)"

definition py_mul :: "pyval \<Rightarrow> pyval \<Rightarrow> pyerr + pyval" where
  "py_mul a b =
     (case (int_of a, int_of b) of
        (Some i, Some j) \<Rightarrow> Inr (PInt (i * j))
      | (Some i, None) \<Rightarrow>
          (case num_of b of Some y \<Rightarrow> Inr (PFloat (of_int i * y)) | None \<Rightarrow> py_repeat b i)
      | (None, Some j) \<Rightarrow>
          (case num_of a of Some x \<Rightarrow> Inr (PFloat (x * of_int j)) | None \<Rightarrow> py_repeat a j)
      | (None, None) \<Rightarrow>
          (case (num_of a, num_of b) of
             (Some x, Some y) \<Rightarrow> Inr (PFloat (x * y))
           | _ \<Rightarrow> Inl TypeError))"

definition py_sub :: "pyval \<Rightarrow> pyval \<Rightarrow> pyerr + pyval" where
  "py_sub a b =
     (case (int_of a, int_of b) of
        (Some i, Some j) \<Rightarrow> Inr (PInt (i - j))
      | _ \<Rightarrow>
          (case (num_of a, num_of b) of
             (Some x, Some y) \<Rightarrow> Inr (PFloat (x - y))
           | _ \<Rightarrow> Inl TypeError))"

text \<open>\<^verbatim>\<open>round(x, 2)\<close>: to two decimals, a tie to the even neighbour; an
  \<^verbatim>\<open>int\<close> is returned unchanged.\<close>

definition round2 :: "rat \<Rightarrow> rat" where
  "round2 q =
     (let s = q * 100; f = \<lfloor>s\<rfloor>; d = s - of_int f
      in if d < 1 / 2 then of_int f / 100
         else if 1 / 2 < d then of_int (f + 1) / 100
         else if even f then of_int f / 100 else of_int (f + 1) / 100)"

fun py_round2 :: "pyval \<Rightarrow> pyerr + pyval" where
  "py_round2 (PFloat q) = Inr (PFloat (round2 q))"
| "py_round2 (PInt i) = Inr (PInt i)"
| "py_round2 (PBool b) = Inr (PInt (if b then 1 else 0))"
| "py_round2 PNone = Inl TypeError"
| "py_round2 (PStr s) = Inl TypeError"
| "py_round2 (PList xs) = Inl TypeError"
| "py_round2 (PDict kvs) = Inl TypeError"

section \<open>The path resolver\<close>

text \<open>\<^verbatim>\<open>key in obj\<close> for a string key: key membership in a dictionary, the
  substring test in a string, element membership in a list; a number is not iterable.\<close>

fun py_contains :: "pyval \<Rightarrow> string \<Rightarrow> pyerr + bool" where
  "py_contains (PDict kvs) k = Inr (map_of kvs k \<noteq> None)"
| "py_contains (PStr s) k = Inr (is_substr k s)"
| "py_contains (PList xs) k = Inr (PStr k \<in> set xs)"
| "py_contains PNone k = Inl TypeError"
| "py_contains (PBool b) k = Inl TypeError"
| "py_contains (PInt i) k = Inl TypeError"
| "py_contains (PFloat q) k = Inl TypeError"

text \<open>\<^verbatim>\<open>obj[key]\<close> for a string key: only a dictionary can be indexed by it.\<close>

fun py_getitem :: "pyval \<Rightarrow> string \<Rightarrow> pyerr + pyval" where
  "py_getitem (PDict kvs) k = (case map_of kvs k of None \<Rightarrow> Inl KeyError | Some v \<Rightarrow> Inr v)"
| "py_getitem PNone k = Inl TypeError"
| "py_getitem (PBool b) k = Inl TypeError"
| "py_getitem (PInt i) k = Inl TypeError"
| "py_getitem (PFloat q) k = Inl TypeError"
| "py_getitem (PStr s) k = Inl TypeError"
| "py_getitem (PList xs) k = Inl TypeError"

text \<open>
  \<^verbatim>\<open>get_value(obj, chain)\<close>. The source pops the head of \<^verbatim>\<open>chain\<close>; every
  caller passes a fresh list, so the mutation is not observable.
\<close>

fun get_value :: "pyval \<Rightarrow> string list \<Rightarrow> pyerr + pyval" where
  "get_value obj [] = Inr (PStr [])"
| "get_value obj (key # chain) =
     (if \<not> truthy obj then Inr (PStr [])
      else (case py_contains obj key of
              Inl e \<Rightarrow> Inl e
            | Inr False \<Rightarrow> Inr (PStr [])
            | Inr True \<Rightarrow>
                (case py_getitem obj key of
                   Inl e \<Rightarrow> Inl e
                 | Inr v \<Rightarrow> if chain \<noteq> [] then get_value v chain else Inr v)))"


section \<open>The measurement normalizer\<close>

text \<open>\<^verbatim>\<open>re.sub(r'\d+', "", format_value).strip()\<close>; \<^verbatim>\<open>re.sub\<close> raises
  \<^verbatim>\<open>TypeError\<close> on a value that is not a string.\<close>

definition measuring_format :: "pyval \<Rightarrow> pyerr + pyval" where
  "measuring_format result =
     bindE (get_value result [''variants'', ''0032'', ''bundleSelector'', ''0021''])
       (\<lambda>format_value.
          if truthy format_value then
            (case format_value of
               PStr s \<Rightarrow> Inr (PStr (str_strip (filter (\<lambda>c. \<not> is_digit c) s)))
             | _ \<Rightarrow> Inl TypeError)
          else Inr format_value)"

text \<open>The \<^verbatim>\<open>if unit == "GRAM" ... elif ... else\<close> chain of
  \<^verbatim>\<open>parser_measuring\<close>; the result is the pair (unit, value).\<close>

definition or_zero :: "pyval \<Rightarrow> pyval" where
  "or_zero v = (if truthy v then v else PInt 0)"

definition convert_measure :: "pyval \<Rightarrow> pyval \<Rightarrow> pyerr + (pyval \<times> pyval)" where
  "convert_measure unit val =
     (if py_eq unit (PStr ''GRAM'') then
        bindE (if truthy val then py_truediv val (PInt 1000) else Inr (PInt 0))
          (\<lambda>v. Inr (PStr ''KG'', v))
      else if py_eq unit (PStr ''ML'') then
        bindE (if truthy val then py_truediv val (PInt 1000) else Inr (PInt 0))
          (\<lambda>v. Inr (PStr ''L'', v))
      else if py_eq unit (PStr ''KG'') \<or> py_eq unit (PStr ''L'') then
        Inr (unit, or_zero val)
      else
        Inr (if truthy unit then unit else PStr [], or_zero val))"

definition net_content_volume_path :: "string list" where
  "net_content_volume_path =
     [''variants'', ''0032'', ''bundles'', ''0021'', ''contentData'', ''netContentVolume'']"

definition parser_measuring :: "pyval \<Rightarrow> pyval \<Rightarrow> pyerr + pyval" where
  "parser_measuring value_dict result =
     bindE (measuring_format result) (\<lambda>format_value.
     bindE (get_value result net_content_volume_path) (\<lambda>other_value_dict.
     bindE (dict_get (if truthy other_value_dict then other_value_dict else value_dict)
              ''value'' PNone) (\<lambda>val.
     bindE (dict_get (if truthy other_value_dict then other_value_dict else value_dict)
              ''uom'' PNone) (\<lambda>unit.
     bindE (convert_measure unit val) (\<lambda>uv.
       Inr (PDict [(''format'', format_value), (''value'', snd uv), (''unit'', fst uv)]))))))"

section \<open>The field extractors\<close>

text \<open>
  Every handler of the source takes the raw value, the record in progress and the whole
  document. The record is an association list from field names to values. A handler
  that only returns a value is a function to \<open>pyerr + pyval\<close>; the two handlers that
  also write the record return the new record as well.
\<close>

type_synonym items = "(string \<times> pyval) list"

definition handle_category_in_supermarket :: "pyval \<Rightarrow> items \<Rightarrow> pyval \<Rightarrow> pyerr + pyval" where
  "handle_category_in_supermarket val items result =
     (case val of
        PList (x # xs) \<Rightarrow>
          bindE (dict_get x ''name'' (PStr []))
            (\<lambda>n. case n of
                    PStr s \<Rightarrow> Inr (PStr (str_replace '' / '' ''/'' s))
                  | _ \<Rightarrow> Inl AttributeError)
      | _ \<Rightarrow> Inr PNone)"

definition handle_brand :: "pyval \<Rightarrow> items \<Rightarrow> pyval \<Rightarrow> pyerr + pyval" where
  "handle_brand val items result = Inr (if truthy val then val else PStr ''MAKRO'')"

text \<open>\<^verbatim>\<open>x.strip()\<close>: only a string has the method.\<close>

definition py_strip :: "pyval \<Rightarrow> pyerr + string" where
  "py_strip v = (case v of PStr s \<Rightarrow> Inr (str_strip s) | _ \<Rightarrow> Inl AttributeError)"

definition handle_manufacturer :: "pyval \<Rightarrow> items \<Rightarrow> pyval \<Rightarrow> pyerr + pyval" where
  "handle_manufacturer val items result =
     (if truthy val then
        bindE (py_strip val) (\<lambda>s. Inr (PDict [(''name'', PStr s), (''address'', PNone)]))
      else Inr PNone)"

definition net_piece_weight_path :: "string list" where
  "net_piece_weight_path =
     [''variants'', ''0032'', ''bundles'', ''0021'', ''contentData'', ''netPieceWeight'']"

definition handle_measuring_unit :: "pyval \<Rightarrow> items \<Rightarrow> pyval \<Rightarrow> pyerr + pyval" where
  "handle_measuring_unit val items result =
     (if truthy val then parser_measuring val result
      else
        bindE (get_value result net_piece_weight_path)
          (\<lambda>fallback_val.
             if truthy fallback_val then parser_measuring fallback_val result
             else Inr PNone))"

text \<open>
  \<^verbatim>\<open>str(val).lower().strip() == 'weight'\<close>. For a value that is not a string,
  \<^verbatim>\<open>str(val)\<close> is \<^verbatim>\<open>None\<close>, \<^verbatim>\<open>True\<close>, \<^verbatim>\<open>False\<close>, a numeral, or
  starts with a bracket or a brace, and so never compares equal.
\<close>

definition handle_is_weight_article :: "pyval \<Rightarrow> items \<Rightarrow> pyval \<Rightarrow> pyerr + pyval" where
  "handle_is_weight_article val items result =
     (case val of
        PStr s \<Rightarrow> Inr (if str_strip (str_lower s) = ''weight'' then PStr ''WEIGHT'' else PNone)
      | _ \<Rightarrow> Inr PNone)"

text \<open>\<^verbatim>\<open>sep.join(xs)\<close> on a list of values: every item must be a string.\<close>

fun str_of :: "pyval \<Rightarrow> string option" where
  "str_of (PStr s) = Some s"
| "str_of PNone = None"
| "str_of (PBool b) = None"
| "str_of (PInt i) = None"
| "str_of (PFloat q) = None"
| "str_of (PList xs) = None"
| "str_of (PDict kvs) = None"

definition py_join :: "string \<Rightarrow> pyval list \<Rightarrow> pyerr + pyval" where
  "py_join sep xs =
     (case those (map str_of xs) of
        None \<Rightarrow> Inl TypeError
      | Some ss \<Rightarrow> Inr (PStr (str_join sep ss)))"

fun collect_leaf_labels :: "pyval list \<Rightarrow> pyval list \<Rightarrow> pyerr + pyval list" where
  "collect_leaf_labels [] ingredients = Inr ingredients"
| "collect_leaf_labels (leaf # leafs) ingredients =
     bindE (dict_get leaf ''label'' PNone)
       (\<lambda>v. collect_leaf_labels leafs (if truthy v then ingredients @ [v] else ingredients))"

fun collect_ingredients :: "pyval list \<Rightarrow> pyval list \<Rightarrow> pyerr + pyval list" where
  "collect_ingredients [] ingredients = Inr ingredients"
| "collect_ingredients (data_dict # rest) ingredients =
     bindE (dict_get data_dict ''label'' PNone) (\<lambda>label.
       if py_eq label (PStr ''Listado de ingredientes'') then
         bindE (dict_get data_dict ''leafs'' (PList [])) (\<lambda>leafs.
         bindE (py_iter leafs) (\<lambda>ls.
         bindE (collect_leaf_labels ls ingredients) (\<lambda>ingredients'.
           collect_ingredients rest ingredients')))
       else collect_ingredients rest ingredients)"

definition handle_ingredients :: "pyval \<Rightarrow> items \<Rightarrow> pyval \<Rightarrow> pyerr + pyval" where
  "handle_ingredients val items result =
     bindE (py_iter val) (\<lambda>ds.
     bindE (collect_ingredients ds []) (\<lambda>ingredients.
       if ingredients \<noteq> [] then py_join '' '' ingredients else Inr PNone))"

text \<open>The label table of the nutrition extractor; the accented letters are written as
  their UTF-8 bytes.\<close>

definition nutrition_fields :: "(string \<times> string) list" where
  "nutrition_fields =
     [(''Valor energ'' @ [CHR 0xC3, CHR 0xA9] @ ''tico kcal'', ''calories''),
      (''Prote'' @ [CHR 0xC3, CHR 0xAD] @ ''nas'', ''protein''),
      (''Grasas'', ''fat''),
      (''de los cuales az'' @ [CHR 0xC3, CHR 0xBA] @ ''cares'', ''sugars''),
      (''Hidratos de carbono'', ''carbohydrates''),
      (''Fibra alimentaria'', ''fiber''),
      (''de las cuales saturadas'', ''saturatedFattyAcids''),
      (''Sal'', ''salt'')]"

text \<open>\<^verbatim>\<open>fields.get(label)\<close>: a list or a dictionary is unhashable.\<close>

fun fields_get :: "pyval \<Rightarrow> pyerr + string option" where
  "fields_get (PStr s) = Inr (map_of nutrition_fields s)"
| "fields_get (PList xs) = Inl TypeError"
| "fields_get (PDict kvs) = Inl TypeError"
| "fields_get PNone = Inr None"
| "fields_get (PBool b) = Inr None"
| "fields_get (PInt i) = Inr None"
| "fields_get (PFloat q) = Inr None"

text \<open>\<^verbatim>\<open>aux[0]\<close>.\<close>

fun first_item :: "pyval \<Rightarrow> pyerr + pyval" where
  "first_item (PList []) = Inl IndexError"
| "first_item (PList (x # xs)) = Inr x"
| "first_item (PStr []) = Inl IndexError"
| "first_item (PStr (c # cs)) = Inr (PStr [c])"
| "first_item (PDict kvs) = Inl KeyError"
| "first_item PNone = Inl TypeError"
| "first_item (PBool b) = Inl TypeError"
| "first_item (PInt i) = Inl TypeError"
| "first_item (PFloat q) = Inl TypeError"

fun nutrition_rows :: "pyval list \<Rightarrow> items \<Rightarrow> pyerr + items" where
  "nutrition_rows [] items = Inr items"
| "nutrition_rows (row # rows) items =
     bindE (dict_get row ''rowLabel'' PNone) (\<lambda>label.
     bindE (fields_get label) (\<lambda>key.
       case key of
         None \<Rightarrow> nutrition_rows rows items
       | Some k \<Rightarrow>
           bindE (dict_get row ''cells'' (PList [])) (\<lambda>aux.
             if truthy aux then
               bindE (first_item aux) (\<lambda>data_dict.
                 if is_dict data_dict then
                   bindE (dict_get data_dict ''value'' PNone) (\<lambda>v.
                   bindE (dict_get data_dict ''unitOfMeasure'' PNone) (\<lambda>u.
                     nutrition_rows rows
                       (dict_set k (PDict [(''value'', v), (''unit'', u)]) items)))
                 else nutrition_rows rows items)
             else nutrition_rows rows items)))"

definition handle_nutrition :: "pyval \<Rightarrow> items \<Rightarrow> pyval \<Rightarrow> pyerr + pyval" where
  "handle_nutrition val items result =
     (if \<not> is_dict val then Inr PNone
      else
        bindE (dict_get val ''rows'' (PList [])) (\<lambda>rows.
        bindE (py_iter rows) (\<lambda>rs.
        bindE (nutrition_rows rs []) (\<lambda>table. Inr (PDict table)))))"

text \<open>
  The generator \<^verbatim>\<open>cell[key].strip() for key in cell if cell.get(key)\<close>. A key that
  is not a string can only come from a cell that is a list, where the attribute lookup
  \<^verbatim>\<open>cell.get\<close> already fails.
\<close>

fun cell_parts :: "pyval \<Rightarrow> pyval list \<Rightarrow> pyerr + string list" where
  "cell_parts cell [] = Inr []"
| "cell_parts cell (key # keys) =
     (case key of
        PStr k \<Rightarrow>
          bindE (dict_get cell k PNone) (\<lambda>v.
            if truthy v then
              bindE (py_getitem cell k) (\<lambda>w.
              bindE (py_strip w) (\<lambda>s.
              bindE (cell_parts cell keys) (\<lambda>r. Inr (s # r))))
            else cell_parts cell keys)
      | _ \<Rightarrow> bindE (dict_get cell [] PNone) (\<lambda>v. cell_parts cell keys))"

definition cell_value :: "pyval \<Rightarrow> pyerr + string" where
  "cell_value cell =
     bindE (py_iter cell) (\<lambda>keys.
     bindE (cell_parts cell keys) (\<lambda>parts. Inr (str_strip (str_join '' '' parts))))"

fun characteristics_cells :: "string \<Rightarrow> pyval list \<Rightarrow> string list \<Rightarrow> pyerr + string list" where
  "characteristics_cells label [] characteristics = Inr characteristics"
| "characteristics_cells label (cell # cells) characteristics =
     bindE (cell_value cell) (\<lambda>v.
       characteristics_cells label cells
         (if v \<noteq> [] then characteristics @ [label @ '': '' @ v] else characteristics))"

fun characteristics_rows :: "pyval list \<Rightarrow> string list \<Rightarrow> pyerr + string list" where
  "characteristics_rows [] characteristics = Inr characteristics"
| "characteristics_rows (row # rows) characteristics =
     bindE (dict_get row ''rowLabel'' (PStr [])) (\<lambda>l.
     bindE (py_strip l) (\<lambda>label.
     bindE (dict_get row ''cells'' (PList [])) (\<lambda>cells.
       if label = [] then characteristics_rows rows characteristics
       else
         bindE (py_iter cells) (\<lambda>cs.
         bindE (characteristics_cells label cs characteristics) (\<lambda>characteristics'.
           characteristics_rows rows characteristics')))))"

definition handle_characteristics :: "pyval \<Rightarrow> items \<Rightarrow> pyval \<Rightarrow> pyerr + pyval" where
  "handle_characteristics val items result =
     (if \<not> is_dict val then Inr PNone
      else
        bindE (dict_get val ''rows'' PNone) (\<lambda>rows.
        bindE (if truthy rows then bindE (py_iter rows) (\<lambda>rs. characteristics_rows rs [])
               else Inr []) (\<lambda>characteristics.
          if characteristics \<noteq> [] then
            Inr (PStr (str_join '' '' (str_split (str_join ''. '' characteristics))))
          else Inr PNone)))"


section \<open>The unit-price reconstructor\<close>

text \<open>
  \<^verbatim>\<open>re.search\<close> with the pattern
  \<^verbatim>\<open>(\d+(?:\.\d+)?)x(\d+(?:\.\d+)?)([kK]?[gG])|(\d+(?:\.\d+)?)([kK]?[gG])\<close>.
  Each piece of the pattern lists the ways it can match at the start of a string, as
  pairs of the matched text and the rest, in the order in which the backtracking matcher
  tries them (a greedy quantifier tries the longest first). The match is the first
  success of the first alternative, else of the second, at the leftmost position that
  has one.
\<close>

definition digit_runs :: "string \<Rightarrow> (string \<times> string) list" where
  "digit_runs s =
     map (\<lambda>n. (take n s, drop n s)) (rev [1..<Suc (length (takeWhile is_digit s))])"

definition number_splits :: "string \<Rightarrow> (string \<times> string) list" where
  "number_splits s =
     concat (map (\<lambda>(d, r).
                (case r of
                   [] \<Rightarrow> []
                 | c # r' \<Rightarrow>
                     if c = CHR ''.''
                     then map (\<lambda>(f, r''). (d @ ''.'' @ f, r'')) (digit_runs r')
                     else [])
                @ [(d, r)])
             (digit_runs s))"

definition unit_splits :: "string \<Rightarrow> (string \<times> string) list" where
  "unit_splits s =
     (case s of
        k # g # r \<Rightarrow> if k \<in> set ''kK'' \<and> g \<in> set ''gG'' then [([k, g], r)] else []
      | _ \<Rightarrow> [])
     @ (case s of
          g # r \<Rightarrow> if g \<in> set ''gG'' then [([g], r)] else []
        | [] \<Rightarrow> [])"

definition multi_pack_matches :: "string \<Rightarrow> (string \<times> string \<times> string) list" where
  "multi_pack_matches s =
     concat (map (\<lambda>(q, r1).
                case r1 of
                  [] \<Rightarrow> []
                | c # r1' \<Rightarrow>
                    if c = CHR ''x''
                    then concat (map (\<lambda>(w, r2). map (\<lambda>(u, r3). (q, w, u)) (unit_splits r2))
                                   (number_splits r1'))
                    else [])
             (number_splits s))"

definition single_pack_matches :: "string \<Rightarrow> (string \<times> string) list" where
  "single_pack_matches s =
     concat (map (\<lambda>(w, r). map (\<lambda>(u, r'). (w, u)) (unit_splits r)) (number_splits s))"

text \<open>The groups of a match: 1 to 3 of the first alternative, or 4 and 5 of the second.\<close>

datatype grams_match = MultiPack string string string | SinglePack string string

definition match_at :: "string \<Rightarrow> grams_match option" where
  "match_at s =
     (case multi_pack_matches s of
        (q, w, u) # ms \<Rightarrow> Some (MultiPack q w u)
      | [] \<Rightarrow>
          (case single_pack_matches s of
             (w, u) # ms \<Rightarrow> Some (SinglePack w u)
           | [] \<Rightarrow> None))"

fun re_search_grams :: "string \<Rightarrow> grams_match option" where
  "re_search_grams [] = match_at []"
| "re_search_grams (c # cs) =
     (case match_at (c # cs) of Some m \<Rightarrow> Some m | None \<Rightarrow> re_search_grams cs)"

definition unit_multiplier :: "string \<Rightarrow> rat" where
  "unit_multiplier u = (if str_lower u = ''kg'' then 1000 else 1)"

text \<open>\<^verbatim>\<open>_extract_grams\<close>; \<^verbatim>\<open>re.search\<close> raises \<^verbatim>\<open>TypeError\<close> on a
  denomination that is not a string.\<close>

definition extract_grams :: "pyval \<Rightarrow> pyerr + pyval" where
  "extract_grams denomination =
     (case denomination of
        PStr d \<Rightarrow>
          (case re_search_grams d of
             None \<Rightarrow> Inr (PInt 1000)
           | Some (MultiPack g1 g2 g3) \<Rightarrow>
               bindE (py_float (PStr g1)) (\<lambda>quantity.
               bindE (py_float (PStr g2)) (\<lambda>weight.
                 Inr (PFloat (quantity * weight * unit_multiplier g3))))
           | Some (SinglePack g4 g5) \<Rightarrow>
               bindE (py_float (PStr g4)) (\<lambda>weight.
                 Inr (PFloat (weight * unit_multiplier g5))))
      | _ \<Rightarrow> Inl TypeError)"

text \<open>\<^verbatim>\<open>try: ... except (ZeroDivisionError, TypeError): ...\<close>: the result of the
  body, \<open>None\<close> when one of the two exceptions was caught; any other exception
  propagates.\<close>

definition caught :: "pyerr \<Rightarrow> bool" where
  "caught e = (e = ZeroDivisionError \<or> e = TypeError)"

definition try_except :: "pyerr + 'a \<Rightarrow> pyerr + 'a option" where
  "try_except body =
     (case body of
        Inr x \<Rightarrow> Inr (Some x)
      | Inl e \<Rightarrow> if caught e then Inr None else Inl e)"

definition alt_unit_price_path :: "string list" where
  "alt_unit_price_path =
     [''variants'', ''0032'', ''bundles'', ''0021'', ''stores'', ''00057'',
      ''sellingPriceInfo'', ''basePriceData'', ''pricePerUnit'', ''netPrice'']"

text \<open>The body of the \<^verbatim>\<open>try\<close> block of \<^verbatim>\<open>_handle_kg_gross\<close>, up to the
  rounded quotient.\<close>

definition fallback_unit_price :: "items \<Rightarrow> pyerr + pyval" where
  "fallback_unit_price items =
     bindE (if truthy (items_get items ''measuringUnit'' PNone)
            then dict_get (items_get items ''measuringUnit'' (PDict [])) ''value'' (PInt 1)
            else Inr (PInt 1)) (\<lambda>measure_val.
     bindE (py_float (items_get items ''units'' (PInt 1))) (\<lambda>u.
     bindE (py_mul measure_val (PFloat u)) (\<lambda>unit_count.
     bindE (extract_grams (items_get items ''denomination'' PNone)) (\<lambda>grams.
     bindE (py_mul (items_get items ''priceWithTax'' (PInt 0)) (PInt 1000)) (\<lambda>a.
     bindE (py_mul grams unit_count) (\<lambda>b.
     bindE (py_truediv a b) py_round2))))))"

text \<open>\<^verbatim>\<open>_handle_kg_gross\<close> returns the raw value, the record with
  \<^verbatim>\<open>unitPrice\<close> written, and whether it executed \<^verbatim>\<open>CALCULATED = True\<close>.\<close>

definition handle_kg_gross :: "pyval \<Rightarrow> items \<Rightarrow> pyval \<Rightarrow> pyerr + (pyval \<times> items \<times> bool)" where
  "handle_kg_gross val items result =
     (if val = PNone then
        bindE (get_value result alt_unit_price_path) (\<lambda>alt_unit_price.
          if is_number alt_unit_price
          then Inr (val, dict_set ''unitPrice'' alt_unit_price items, False)
          else
            bindE (try_except (fallback_unit_price items)) (\<lambda>r.
              case r of
                Some p \<Rightarrow> Inr (val, dict_set ''unitPrice'' p items, True)
              | None \<Rightarrow> Inr (val, dict_set ''unitPrice'' PNone items, False)))
      else Inr (val, dict_set ''unitPrice'' val items, False))"

section \<open>The promotion evaluator\<close>

definition promotion_labels_path :: "string list" where
  "promotion_labels_path =
     [''variants'', ''0032'', ''bundles'', ''0021'', ''stores'', ''00057'',
      ''sellingPriceInfo'', ''promotionLabels'']"

definition levels_path :: "string list" where
  "levels_path =
     [''variants'', ''0032'', ''bundles'', ''0021'', ''stores'', ''00057'',
      ''sellingPriceInfo'', ''summaryDnrInfo'', ''levels'']"

text \<open>The bodies of the two \<^verbatim>\<open>try\<close> blocks of \<^verbatim>\<open>_handle_offer_price\<close>.\<close>

definition percent_promotion :: "pyval \<Rightarrow> items \<Rightarrow> pyerr + pyval" where
  "percent_promotion val items =
     bindE (py_truediv val (items_get items ''price'' (PInt 1))) (\<lambda>d.
     bindE (py_sub (PFloat 1) d) py_round2)"

definition unit_price_with_offer :: "pyval \<Rightarrow> items \<Rightarrow> pyerr + pyval" where
  "unit_price_with_offer val items =
     bindE (if \<not> truthy (items_get items ''measuringUnit'' (PDict [])) then Inr (PInt 1)
            else
              bindE (dict_get (items_get items ''measuringUnit'' (PDict [])) ''value'' (PInt 1))
                (\<lambda>m.
              bindE (py_float (items_get items ''units'' (PInt 1))) (\<lambda>u.
                py_mul m (PFloat u)))) (\<lambda>unit_count.
     bindE (py_truediv val unit_count) py_round2)"

definition set_if :: "string \<Rightarrow> pyval option \<Rightarrow> items \<Rightarrow> items" where
  "set_if k r items = (case r of None \<Rightarrow> items | Some v \<Rightarrow> dict_set k v items)"

definition handle_offer_price :: "pyval \<Rightarrow> items \<Rightarrow> pyval \<Rightarrow> pyerr + (pyval \<times> items)" where
  "handle_offer_price val items0 result =
     (let items = dict_set ''percentPromotion'' PNone
                    (dict_set ''unitPriceWithOffer'' PNone items0)
      in if py_eq val (items_get items ''price'' PNone) then
           bindE (get_value result promotion_labels_path) (\<lambda>promo_labels.
           bindE (get_value result levels_path) (\<lambda>levels.
             if \<not> truthy promo_labels \<and> \<not> truthy levels then Inr (PNone, items)
             else Inr (val, items)))
         else
           bindE (try_except (percent_promotion val items)) (\<lambda>r1.
           bindE (try_except
                    (unit_price_with_offer val (set_if ''percentPromotion'' r1 items))) (\<lambda>r2.
             Inr (val, set_if ''unitPriceWithOffer'' r2
                         (set_if ''percentPromotion'' r1 items)))))"

section \<open>The record assembler\<close>

definition fields_map :: "(string \<times> string list) list" where
  "fields_map =
     [(''productIdInSupermarket'',
         [''variants'', ''0032'', ''bundles'', ''0021'', ''customerDisplayId'']),
      (''denomination'', [''variants'', ''0032'', ''description'']),
      (''categoryInSupermarket'', [''variants'', ''0032'', ''categories'']),
      (''brand'', [''brandName'']),
      (''manufacturer'',
         [''variants'', ''0032'', ''bundles'', ''0021'', ''stores'', ''00057'', ''supplier'',
          ''supplierName'']),
      (''description'',
         [''variants'', ''0032'', ''bundles'', ''0021'', ''details'', ''longDescription'']),
      (''measuringUnit'',
         [''variants'', ''0032'', ''bundles'', ''0021'', ''contentData'', ''weightPerPiece'']),
      (''units'', [''variants'', ''0032'', ''bundles'', ''0021'', ''selector'', ''contentSize'']),
      (''priceWithTax'',
         [''variants'', ''0032'', ''bundles'', ''0021'', ''stores'', ''00057'',
          ''sellingPriceInfo'', ''finalPrice'']),
      (''price'',
         [''variants'', ''0032'', ''bundles'', ''0021'', ''stores'', ''00057'',
          ''sellingPriceInfo'', ''shelfPrice'']),
      (''offerPrice'',
         [''variants'', ''0032'', ''bundles'', ''0021'', ''stores'', ''00057'',
          ''sellingPriceInfo'', ''basePrice'']),
      (''kgGross'',
         [''variants'', ''0032'', ''bundles'', ''0021'', ''stores'', ''00057'',
          ''sellingPriceInfo'', ''kgGross'']),
      (''isWeightArticle'', [''variants'', ''0032'', ''bundles'', ''0021'', ''isWeightArticle'']),
      (''rawIngredients'', [''variants'', ''0032'', ''bundles'', ''0021'', ''details'', ''features'']),
      (''nutritionInformation'',
         [''variants'', ''0032'', ''bundles'', ''0021'', ''details'', ''nutritionalTable'']),
      (''characteristics'',
         [''variants'', ''0032'', ''bundles'', ''0021'', ''details'', ''characteristicsTable'']),
      (''promotion'',
         [''variants'', ''0032'', ''bundles'', ''0021'', ''stores'', ''00057'',
          ''sellingPriceInfo'', ''summaryDnrInfo'', ''name''])]"

text \<open>
  The dispatch table \<^verbatim>\<open>field_handlers\<close>. Every entry returns the value to store
  under the key, the record as the handler left it, and whether the handler executed
  \<^verbatim>\<open>CALCULATED = True\<close>.
\<close>

type_synonym handler = "pyval \<Rightarrow> items \<Rightarrow> pyval \<Rightarrow> pyerr + (pyval \<times> items \<times> bool)"

definition returns_value :: "(pyval \<Rightarrow> items \<Rightarrow> pyval \<Rightarrow> pyerr + pyval) \<Rightarrow> handler" where
  "returns_value h val items result = bindE (h val items result) (\<lambda>v. Inr (v, items, False))"

definition writes_record :: "(pyval \<Rightarrow> items \<Rightarrow> pyval \<Rightarrow> pyerr + (pyval \<times> items)) \<Rightarrow> handler" where
  "writes_record h val items result =
     bindE (h val items result) (\<lambda>vi. Inr (fst vi, snd vi, False))"

definition field_handlers :: "(string \<times> handler) list" where
  "field_handlers =
     [(''categoryInSupermarket'', returns_value handle_category_in_supermarket),
      (''brand'', returns_value handle_brand),
      (''manufacturer'', returns_value handle_manufacturer),
      (''measuringUnit'', returns_value handle_measuring_unit),
      (''isWeightArticle'', returns_value handle_is_weight_article),
      (''rawIngredients'', returns_value handle_ingredients),
      (''nutritionInformation'', returns_value handle_nutrition),
      (''characteristics'', returns_value handle_characteristics),
      (''offerPrice'', writes_record handle_offer_price),
      (''kgGross'', handle_kg_gross)]"

text \<open>
  One iteration of the loop over \<^verbatim>\<open>fields_map.items()\<close>. The state is the record
  in progress and the module-level flag \<^verbatim>\<open>CALCULATED\<close>.
\<close>

definition assemble_field :: "pyval \<Rightarrow> items \<times> bool \<Rightarrow> string \<times> string list \<Rightarrow> pyerr + (items \<times> bool)" where
  "assemble_field result st field =
     bindE (get_value result (snd field)) (\<lambda>raw_value.
       case map_of field_handlers (fst field) of
         Some h \<Rightarrow>
           bindE (h raw_value (fst st) result) (\<lambda>r.
             Inr (dict_set (fst field) (fst r) (fst (snd r)),
                  if snd (snd r) then True else snd st))
       | None \<Rightarrow> Inr (dict_set (fst field) raw_value (fst st), snd st))"

fun assemble_fields :: "pyval \<Rightarrow> items \<times> bool \<Rightarrow> (string \<times> string list) list \<Rightarrow> pyerr + (items \<times> bool)" where
  "assemble_fields result st [] = Inr st"
| "assemble_fields result st (field # fields) =
     bindE (assemble_field result st field) (\<lambda>st'. assemble_fields result st' fields)"

text \<open>The field-extraction pass of \<^verbatim>\<open>parser_product_details\<close> on the result
  document, started with the flag \<open>calculated\<close>.\<close>

definition extract_fields :: "bool \<Rightarrow> pyval \<Rightarrow> pyerr + (items \<times> bool)" where
  "extract_fields calculated result = assemble_fields result ([], calculated) fields_map"


section \<open>Example documents\<close>

text \<open>A document whose only content is the \<^verbatim>\<open>sellingPriceInfo\<close> object \<open>kvs\<close> of
  store 00057, bundle 0021, variant 0032.\<close>

definition selling_price_doc :: "(string \<times> pyval) list \<Rightarrow> pyval" where
  "selling_price_doc kvs =
     PDict [(''variants'', PDict [(''0032'', PDict [(''bundles'', PDict [(''0021'',
       PDict [(''stores'', PDict [(''00057'', PDict [(''sellingPriceInfo'', PDict kvs)])])])])])])]"

text \<open>A document whose only content is the \<^verbatim>\<open>contentData\<close> object \<open>kvs\<close> of
  bundle 0021, variant 0032.\<close>

definition content_data_doc :: "(string \<times> pyval) list \<Rightarrow> pyval" where
  "content_data_doc kvs =
     PDict [(''variants'', PDict [(''0032'', PDict [(''bundles'', PDict [(''0021'',
       PDict [(''contentData'', PDict kvs)])])])])]"

text \<open>A product with the display name \<^verbatim>\<open>Arroz 500g\<close>, a piece weight of 1 KG, 2
  units, all three prices 4.00 and a null \<^verbatim>\<open>kgGross\<close>; and the record that the
  field-extraction pass assembles from it.\<close>

definition example_doc :: pyval where
  "example_doc =
     PDict [(''variants'', PDict [(''0032'', PDict
       [(''description'', PStr ''Arroz 500g''),
        (''bundles'', PDict [(''0021'', PDict
          [(''contentData'', PDict [(''weightPerPiece'',
              PDict [(''value'', PInt 1), (''uom'', PStr ''KG'')])]),
           (''selector'', PDict [(''contentSize'', PInt 2)]),
           (''stores'', PDict [(''00057'', PDict [(''sellingPriceInfo'',
              PDict [(''finalPrice'', PFloat 4), (''shelfPrice'', PFloat 4),
                     (''basePrice'', PFloat 4), (''kgGross'', PNone)])])])])])])])]"

definition example_record :: items where
  "example_record =
     [(''productIdInSupermarket'', PStr []),
      (''denomination'', PStr ''Arroz 500g''),
      (''categoryInSupermarket'', PNone), (''brand'', PStr ''MAKRO''),
      (''manufacturer'', PNone), (''description'', PStr []),
      (''measuringUnit'',
         PDict [(''format'', PStr []), (''value'', PInt 1), (''unit'', PStr ''KG'')]),
      (''units'', PInt 2), (''priceWithTax'', PFloat 4),
      (''price'', PFloat 4), (''unitPriceWithOffer'', PNone),
      (''percentPromotion'', PNone), (''offerPrice'', PNone),
      (''unitPrice'', PFloat 4), (''kgGross'', PNone),
      (''isWeightArticle'', PNone), (''rawIngredients'', PNone),
      (''nutritionInformation'', PNone), (''characteristics'', PNone),
      (''promotion'', PStr [])]"

section \<open>Vocabulary of the statements\<close>






definition no_digit_first :: "string \<Rightarrow> bool" where
  "no_digit_first r = (r = [] \<or> \<not> is_digit (hd r))"


text \<open>
  The shape of a nutrition table on which the nutrition extractor returns: the
  \<^verbatim>\<open>rows\<close> entry is absent or iterable, every row is a dictionary whose label is
  hashable, and the \<^verbatim>\<open>cells\<close> of a row with a known label are empty, a list or a
  string. A row is unmatched when its label is none of the eight known labels.
\<close>

definition cells_ok :: "pyval \<Rightarrow> bool" where
  "cells_ok aux =
     (\<not> truthy aux \<or> (case aux of PList xs \<Rightarrow> True | PStr s \<Rightarrow> True | _ \<Rightarrow> False))"

definition row_ok :: "pyval \<Rightarrow> bool" where
  "row_ok row =
     (case row of
        PDict kvs \<Rightarrow>
          (case fields_get (items_get kvs ''rowLabel'' PNone) of
             Inl e \<Rightarrow> False
           | Inr None \<Rightarrow> True
           | Inr (Some k) \<Rightarrow> cells_ok (items_get kvs ''cells'' (PList [])))
      | _ \<Rightarrow> False)"

definition rows_ok :: "(string \<times> pyval) list \<Rightarrow> bool" where
  "rows_ok kvs =
     (case py_iter (items_get kvs ''rows'' (PList [])) of
        Inl e \<Rightarrow> False
      | Inr rs \<Rightarrow> list_all row_ok rs)"

definition row_unmatched :: "pyval \<Rightarrow> bool" where
  "row_unmatched row =
     (case row of
        PDict kvs \<Rightarrow> fields_get (items_get kvs ''rowLabel'' PNone) = Inr None
      | _ \<Rightarrow> False)"

definition nutrient_keys :: "string set" where
  "nutrient_keys = snd ` set nutrition_fields"

text \<open>
  The record of an outcome of the field-extraction pass, without the flag. The keys that
  handlers write besides their own field. What the record holds for a field whose path
  resolves to the empty sentinel: the fallback label for the brand, \<^verbatim>\<open>None\<close> for
  the measuring unit when its alternate path is unresolved too, \<^verbatim>\<open>None\<close> or the
  sentinel for every other field. What a handler may do to the record (\<open>frame\<close>), and the
  two together for one entry of the dispatch table (\<open>handler_ok\<close>).
\<close>

definition record_of :: "pyerr + (items \<times> bool) \<Rightarrow> pyerr + items" where
  "record_of r = (case r of Inl e \<Rightarrow> Inl e | Inr st \<Rightarrow> Inr (fst st))"





section \<open>Basic facts\<close>

lemma py_eq_str: "py_eq a (PStr s) = (a = PStr s)"
  by (cases a) auto

lemma map_of_dict_set: "map_of (dict_set k v al) = (map_of al)(k \<mapsto> v)"
  by (induction al) (auto simp: fun_eq_iff)

lemma items_get_dict_set:
  "items_get (dict_set k v al) k' d = (if k' = k then v else items_get al k' d)"
  by (simp add: items_get_def map_of_dict_set)

lemma keys_dict_set: "fst ` set (dict_set k v al) = insert k (fst ` set al)"
  by (induction al) auto



section \<open>The measurement normalizer: properties\<close>

text \<open>
  Claim C7. Let \<open>other\<close> be what the net-content-volume path resolves to. The pair that
  \<^verbatim>\<open>parser_measuring\<close> converts is \<open>other\<close> when it is non-empty and the argument
  \<open>value_dict\<close> otherwise. With \<open>raw\<close> and \<open>unit\<close> the \<^verbatim>\<open>value\<close> and \<^verbatim>\<open>uom\<close>
  entries of that pair: \<^verbatim>\<open>GRAM\<close> gives unit \<^verbatim>\<open>KG\<close> and value raw/1000 (0 when raw
  is absent or zero), \<^verbatim>\<open>ML\<close> gives \<^verbatim>\<open>L\<close> and raw/1000, \<^verbatim>\<open>KG\<close> and \<^verbatim>\<open>L\<close>
  pass through with value raw or 0, and any other unit passes through (or is the empty
  string) with value raw or 0. The hypotheses say that the two lookups in the document
  resolve, that the pair is a dictionary, and that a raw value to be divided is a number.
\<close>

theorem parser_measuring_converts:
  assumes fmt: "measuring_format result = Inr f"
    and ncv: "get_value result net_content_volume_path = Inr other"
    and src: "(if truthy other then other else value_dict) = PDict kvs"
    and num: "truthy (items_get kvs ''value'' PNone) \<and>
              items_get kvs ''uom'' PNone \<in> {PStr ''GRAM'', PStr ''ML''}
              \<longrightarrow> num_of (items_get kvs ''value'' PNone) = Some x"
  shows "\<exists>u v. parser_measuring value_dict result
                 = Inr (PDict [(''format'', f), (''value'', v), (''unit'', u)]) \<and>
           (items_get kvs ''uom'' PNone = PStr ''GRAM'' \<longrightarrow>
              u = PStr ''KG'' \<and>
              v = (if truthy (items_get kvs ''value'' PNone) then PFloat (x / 1000) else PInt 0)) \<and>
           (items_get kvs ''uom'' PNone = PStr ''ML'' \<longrightarrow>
              u = PStr ''L'' \<and>
              v = (if truthy (items_get kvs ''value'' PNone) then PFloat (x / 1000) else PInt 0)) \<and>
           (items_get kvs ''uom'' PNone \<in> {PStr ''KG'', PStr ''L''} \<longrightarrow>
              u = items_get kvs ''uom'' PNone \<and>
              v = (if truthy (items_get kvs ''value'' PNone)
                   then items_get kvs ''value'' PNone else PInt 0)) \<and>
           (items_get kvs ''uom'' PNone \<notin> {PStr ''GRAM'', PStr ''ML'', PStr ''KG'', PStr ''L''} \<longrightarrow>
              u = (if truthy (items_get kvs ''uom'' PNone)
                   then items_get kvs ''uom'' PNone else PStr []) \<and>
              v = (if truthy (items_get kvs ''value'' PNone)
                   then items_get kvs ''value'' PNone else PInt 0))"
proof -
  define raw where "raw = items_get kvs ''value'' PNone"
  define unit where "unit = items_get kvs ''uom'' PNone"
  have pm: "parser_measuring value_dict result =
          bindE (convert_measure unit raw) (\<lambda>uv.
            Inr (PDict [(''format'', f), (''value'', snd uv), (''unit'', fst uv)]))"
    using fmt ncv src by (simp add: parser_measuring_def bindE_def raw_def unit_def)
  show ?thesis
    unfolding pm raw_def [symmetric] unit_def [symmetric]
    using num [unfolded raw_def [symmetric] unit_def [symmetric]]
    by (auto simp: convert_measure_def py_eq_str py_truediv_def bindE_def or_zero_def)
qed

text \<open>The three examples of the claim on a document without net content volume, and
  the override: a \<^verbatim>\<open>KG\<close> argument is replaced by the document's 500 ML.\<close>

theorem parser_measuring_converts_witness:
  "parser_measuring (PDict [(''value'', PInt 2500), (''uom'', PStr ''GRAM'')]) (PDict [])
     = Inr (PDict [(''format'', PStr []), (''value'', PFloat (5 / 2)), (''unit'', PStr ''KG'')]) \<and>
   parser_measuring (PDict [(''value'', PInt 500), (''uom'', PStr ''ML'')]) (PDict [])
     = Inr (PDict [(''format'', PStr []), (''value'', PFloat (1 / 2)), (''unit'', PStr ''L'')]) \<and>
   parser_measuring (PDict [(''value'', PInt 3), (''uom'', PStr ''KG'')]) (PDict [])
     = Inr (PDict [(''format'', PStr []), (''value'', PInt 3), (''unit'', PStr ''KG'')]) \<and>
   parser_measuring (PDict [(''value'', PInt 3), (''uom'', PStr ''KG'')])
       (content_data_doc
          [(''netContentVolume'', PDict [(''value'', PInt 500), (''uom'', PStr ''ML'')])])
     = Inr (PDict [(''format'', PStr []), (''value'', PFloat (1 / 2)), (''unit'', PStr ''L'')])"
proof -
  let ?ncv = "PDict [(''value'', PInt 500), (''uom'', PStr ''ML'')]"
  let ?doc = "content_data_doc [(''netContentVolume'', ?ncv)]"
  have f: "measuring_format (PDict []) = Inr (PStr [])"
    by (simp add: measuring_format_def bindE_def)
  have o: "get_value (PDict []) net_content_volume_path = Inr (PStr [])"
    by (simp add: net_content_volume_path_def)
  have f': "measuring_format ?doc = Inr (PStr [])"
    by (simp add: measuring_format_def bindE_def content_data_doc_def)
  have o': "get_value ?doc net_content_volume_path = Inr ?ncv"
    by (simp add: net_content_volume_path_def content_data_doc_def)
  show ?thesis
    using parser_measuring_converts [OF f o,
            of "PDict [(''value'', PInt 2500), (''uom'', PStr ''GRAM'')]"
               "[(''value'', PInt 2500), (''uom'', PStr ''GRAM'')]" 2500]
          parser_measuring_converts [OF f o,
            of "PDict [(''value'', PInt 500), (''uom'', PStr ''ML'')]"
               "[(''value'', PInt 500), (''uom'', PStr ''ML'')]" 500]
          parser_measuring_converts [OF f o,
            of "PDict [(''value'', PInt 3), (''uom'', PStr ''KG'')]"
               "[(''value'', PInt 3), (''uom'', PStr ''KG'')]" 0]
          parser_measuring_converts [OF f' o',
            of "PDict [(''value'', PInt 3), (''uom'', PStr ''KG'')]"
               "[(''value'', PInt 500), (''uom'', PStr ''ML'')]" 500]
    by (simp add: items_get_def)
qed

section \<open>The path resolver: properties\<close>

lemma get_value_empty_chain: "get_value obj [] = Inr (PStr [])"
  by simp

lemma get_value_falsy: "\<not> truthy obj \<Longrightarrow> get_value obj chain = Inr (PStr [])"
  by (cases chain) simp_all

lemma get_value_absent_key:
  "map_of kvs key = None \<Longrightarrow> get_value (PDict kvs) (key # chain) = Inr (PStr [])"
  by simp

text \<open>
  Claim C3 (the path resolver returns the empty string whenever an intermediate value is
  not indexable, and never raises). The code raises on the document
  \<^verbatim>\<open>{"variants": 5}\<close> with the chain \<^verbatim>\<open>["variants", "0032"]\<close>: the
  intermediate value 5 is truthy, and the membership test \<^verbatim>\<open>"0032" in 5\<close> raises
  \<^verbatim>\<open>TypeError\<close>.
\<close>

theorem get_value_raises_on_number:
  "get_value (PDict [(''variants'', PInt 5)]) [''variants'', ''0032''] = Inl TypeError"
  by code_simp

theorem get_value_raises_on_number_witness:
  "get_value (PDict [(''variants'', PInt 5)]) [''variants'', ''0032''] \<noteq> Inr (PStr [])"
  using get_value_raises_on_number by simp

section \<open>The unit-price reconstructor: properties\<close>

lemma not_digit_dot [simp]: "\<not> is_digit CHR ''.''" "\<not> is_digit CHR ''x''"
  "\<not> is_digit CHR ''g''" "\<not> is_digit CHR ''G''" "\<not> is_digit CHR ''k''" "\<not> is_digit CHR ''K''"
  by (simp_all add: is_digit_def)




lemma digit_runs_no_digit: "no_digit_first s \<Longrightarrow> digit_runs s = []"
  by (cases s) (auto simp: digit_runs_def no_digit_first_def)












lemma dec_nat_Nil [simp]: "dec_nat [] = 0"
  by (simp add: dec_nat_def)









lemma number_splits_no_digit: "no_digit_first s \<Longrightarrow> number_splits s = []"
  by (simp add: number_splits_def digit_runs_no_digit)



lemma unit_splits_blocked:
  "r \<noteq> [] \<Longrightarrow> is_digit (hd r) \<or> hd r = CHR ''.'' \<Longrightarrow> unit_splits r = []"
  by (cases r) (auto simp: unit_splits_def is_digit_def split: list.splits)







lemma match_at_no_digit: "no_digit_first s \<Longrightarrow> match_at s = None"
  by (simp add: match_at_def multi_pack_matches_def single_pack_matches_def
                number_splits_no_digit)

lemma re_search_grams_skip:
  "list_all (\<lambda>c. \<not> is_digit c) pre \<Longrightarrow> re_search_grams (pre @ s) = re_search_grams s"
  by (induction pre) (auto simp: match_at_no_digit no_digit_first_def)



lemma re_search_grams_no_digits:
  "list_all (\<lambda>c. \<not> is_digit c) d \<Longrightarrow> re_search_grams d = None"
  using re_search_grams_skip [of d "[]"] by (simp add: match_at_no_digit no_digit_first_def)










text \<open>
  Claim C2 (in the fallback computation units defaults to 1 when unparseable, and the
  computation never crashes). With a null \<^verbatim>\<open>kgGross\<close>, no alternate price and the
  units field holding the empty string that the path resolver stores for a missing
  \<^verbatim>\<open>contentSize\<close>, \<^verbatim>\<open>float("")\<close> raises \<^verbatim>\<open>ValueError\<close>, which the
  \<^verbatim>\<open>except (ZeroDivisionError, TypeError)\<close> clause does not catch.
\<close>

theorem handle_kg_gross_unparseable_units_raises:
  "handle_kg_gross PNone [(''units'', PStr [])] (PDict []) = Inl ValueError"
  by code_simp

theorem handle_kg_gross_unparseable_units_raises_witness:
  "\<not> (\<exists>r. handle_kg_gross PNone [(''units'', PStr [])] (PDict []) = Inr r)"
  using handle_kg_gross_unparseable_units_raises by simp

section \<open>The promotion evaluator: properties\<close>




text \<open>
  Claim C6. When the raw offer price \<open>val\<close> equals the shelf price of the record, and the
  lookups of the promotion labels and of the discount levels resolve to \<open>promo_labels\<close>
  and \<open>levels\<close>: the handler returns \<^verbatim>\<open>None\<close> when both are empty and \<open>val\<close> itself
  when one of them is not; for an offer price that is not itself \<^verbatim>\<open>None\<close>, it returns
  \<^verbatim>\<open>None\<close> if and only if both are empty. In both cases \<^verbatim>\<open>percentPromotion\<close> and
  \<^verbatim>\<open>unitPriceWithOffer\<close> are \<^verbatim>\<open>None\<close> and no other field of the record changes.
\<close>

theorem handle_offer_price_equal:
  assumes eq: "py_eq val (items_get items ''price'' PNone)"
    and pl: "get_value result promotion_labels_path = Inr promo_labels"
    and lv: "get_value result levels_path = Inr levels"
  shows "\<exists>ret items'.
           handle_offer_price val items result = Inr (ret, items') \<and>
           (\<not> truthy promo_labels \<and> \<not> truthy levels \<longrightarrow> ret = PNone) \<and>
           (truthy promo_labels \<or> truthy levels \<longrightarrow> ret = val) \<and>
           (val \<noteq> PNone \<longrightarrow> (ret = PNone \<longleftrightarrow> \<not> truthy promo_labels \<and> \<not> truthy levels)) \<and>
           map_of items' ''percentPromotion'' = Some PNone \<and>
           map_of items' ''unitPriceWithOffer'' = Some PNone \<and>
           (\<forall>k. k \<noteq> ''percentPromotion'' \<and> k \<noteq> ''unitPriceWithOffer''
                \<longrightarrow> map_of items' k = map_of items k)"
  using eq pl lv
  by (auto simp: handle_offer_price_def Let_def items_get_dict_set bindE_def map_of_dict_set)

text \<open>An offer price equal to the shelf price 2.00: discarded on a document without
  promotion data, kept on a document with a promotion label.\<close>

theorem handle_offer_price_equal_witness:
  "(\<exists>items'. handle_offer_price (PFloat 2) [(''price'', PFloat 2)] (PDict [])
                = Inr (PNone, items') \<and>
              map_of items' ''percentPromotion'' = Some PNone \<and>
              map_of items' ''unitPriceWithOffer'' = Some PNone) \<and>
   (\<exists>items'. handle_offer_price (PFloat 2) [(''price'', PFloat 2)]
                (selling_price_doc [(''promotionLabels'', PList [PStr ''2x1''])])
                = Inr (PFloat 2, items') \<and>
              map_of items' ''percentPromotion'' = Some PNone \<and>
              map_of items' ''unitPriceWithOffer'' = Some PNone)"
proof -
  let ?doc = "selling_price_doc [(''promotionLabels'', PList [PStr ''2x1''])]"
  have e: "py_eq (PFloat 2) (items_get [(''price'', PFloat 2)] ''price'' PNone)"
    by (simp add: items_get_def)
  have a: "get_value (PDict []) promotion_labels_path = Inr (PStr [])"
    "get_value (PDict []) levels_path = Inr (PStr [])"
    by (simp_all add: promotion_labels_path_def levels_path_def)
  have b: "get_value ?doc promotion_labels_path = Inr (PList [PStr ''2x1''])"
    "get_value ?doc levels_path = Inr (PStr [])"
    by (simp_all add: promotion_labels_path_def levels_path_def selling_price_doc_def)
  show ?thesis
    using handle_offer_price_equal [OF e a] handle_offer_price_equal [OF e b]
    by auto
qed

section \<open>The nutrition extractor: properties\<close>

lemma fields_get_key: "fields_get label = Inr (Some k) \<Longrightarrow> k \<in> nutrient_keys"
  by (cases label) (auto simp: nutrient_keys_def dest!: map_of_SomeD intro: rev_image_eqI)

lemma nutrition_row_step:
  assumes "row_ok row"
  shows "\<exists>items'. (\<forall>rows. nutrition_rows (row # rows) items = nutrition_rows rows items') \<and>
           fst ` set items' \<subseteq> fst ` set items \<union> nutrient_keys"
proof -
  from assms obtain kvs where row: "row = PDict kvs" by (cases row) (auto simp: row_ok_def)
  show ?thesis
  proof (cases "fields_get (items_get kvs ''rowLabel'' PNone)")
    case (Inl e)
    with assms row show ?thesis by (simp add: row_ok_def)
  next
    case (Inr key)
    show ?thesis
    proof (cases key)
      case None
      with Inr row show ?thesis by (auto simp: bindE_def intro!: exI [of _ items])
    next
      case (Some k)
      with Inr assms row have c: "cells_ok (items_get kvs ''cells'' (PList []))"
        by (simp add: row_ok_def)
      have k: "k \<in> nutrient_keys" using Inr Some fields_get_key by blast
      let ?aux = "items_get kvs ''cells'' (PList [])"
      show ?thesis
      proof (cases "truthy ?aux")
        case False
        with Inr Some row show ?thesis by (auto simp: bindE_def intro!: exI [of _ items])
      next
        case True
        with c consider xs where "?aux = PList xs" "xs \<noteq> []" | s where "?aux = PStr s" "s \<noteq> []"
          by (cases ?aux) (auto simp: cells_ok_def)
        then show ?thesis
        proof cases
          case 1
          then obtain x xs' where xs: "xs = x # xs'" by (cases xs) auto
          show ?thesis
          proof (cases "is_dict x")
            case False
            with Inr Some row 1 xs show ?thesis
              by (auto simp: bindE_def intro!: exI [of _ items])
          next
            case True
            then obtain d where d: "x = PDict d" by (cases x) auto
            let ?items' = "dict_set k (PDict [(''value'', items_get d ''value'' PNone),
                                       (''unit'', items_get d ''unitOfMeasure'' PNone)]) items"
            have "fst ` set ?items' \<subseteq> fst ` set items \<union> nutrient_keys"
              using k by (simp add: keys_dict_set)
            moreover have "\<forall>rows. nutrition_rows (row # rows) items = nutrition_rows rows ?items'"
              using Inr Some row 1 xs d by (simp add: bindE_def)
            ultimately show ?thesis by blast
          qed
        next
          case 2
          then obtain c s' where "s = c # s'" by (cases s) auto
          with Inr Some row 2 show ?thesis
            by (auto simp: bindE_def intro!: exI [of _ items])
        qed
      qed
    qed
  qed
qed

lemma nutrition_rows_ok:
  "list_all row_ok rs \<Longrightarrow>
   \<exists>t. nutrition_rows rs items = Inr t \<and> fst ` set t \<subseteq> fst ` set items \<union> nutrient_keys"
proof (induction rs arbitrary: items)
  case Nil
  then show ?case by simp
next
  case (Cons row rs)
  then have "row_ok row" "list_all row_ok rs" by auto
  from nutrition_row_step [OF \<open>row_ok row\<close>, of items] obtain items' where
    s: "nutrition_rows (row # rs) items = nutrition_rows rs items'"
    and k: "fst ` set items' \<subseteq> fst ` set items \<union> nutrient_keys" by blast
  from Cons.IH [OF \<open>list_all row_ok rs\<close>, of items'] obtain t where
    t: "nutrition_rows rs items' = Inr t" "fst ` set t \<subseteq> fst ` set items' \<union> nutrient_keys"
    by blast
  have "fst ` set t \<subseteq> fst ` set items \<union> nutrient_keys" using k t(2) by blast
  then show ?case unfolding s using t(1) by blast
qed

lemma nutrition_row_bad:
  assumes "\<not> row_ok row"
  shows "\<exists>e. nutrition_rows (row # rows) items = Inl e"
proof (cases row)
  case (PDict kvs)
  show ?thesis
  proof (cases "fields_get (items_get kvs ''rowLabel'' PNone)")
    case (Inl e)
    with PDict show ?thesis by (simp add: bindE_def)
  next
    case (Inr key)
    with assms PDict obtain k where k: "key = Some k"
      and c: "\<not> cells_ok (items_get kvs ''cells'' (PList []))"
      by (cases key) (auto simp: row_ok_def)
    from c show ?thesis using Inr k PDict
      by (cases "items_get kvs ''cells'' (PList [])") (auto simp: cells_ok_def bindE_def)
  qed
qed (simp_all add: bindE_def)

lemma nutrition_rows_bad:
  "\<not> list_all row_ok rs \<Longrightarrow> \<exists>e. nutrition_rows rs items = Inl e"
proof (induction rs arbitrary: items)
  case Nil
  then show ?case by simp
next
  case (Cons row rs)
  show ?case
  proof (cases "row_ok row")
    case True
    with Cons.prems have "\<not> list_all row_ok rs" by simp
    moreover from nutrition_row_step [OF True, of items] obtain items' where
      s: "nutrition_rows (row # rs) items = nutrition_rows rs items'" by blast
    ultimately show ?thesis unfolding s using Cons.IH by blast
  next
    case False
    then show ?thesis by (rule nutrition_row_bad)
  qed
qed

lemma nutrition_rows_unmatched:
  "list_all row_unmatched rs \<Longrightarrow> nutrition_rows rs items = Inr items"
proof (induction rs)
  case Nil
  then show ?case by simp
next
  case (Cons row rs)
  then obtain kvs where "row = PDict kvs" "fields_get (items_get kvs ''rowLabel'' PNone) = Inr None"
    by (cases row) (auto simp: row_unmatched_def)
  with Cons show ?case by (simp add: bindE_def)
qed

text \<open>
  Claim C10 (the nutrition extractor returns a mapping for every dictionary input). The
  table \<^verbatim>\<open>{"rows": 5}\<close> is a dictionary, and the loop \<^verbatim>\<open>for row in rows\<close> over
  the number 5 raises \<^verbatim>\<open>TypeError\<close>.
\<close>

theorem handle_nutrition_dict_raises:
  "handle_nutrition (PDict [(''rows'', PInt 5)]) [] (PDict []) = Inl TypeError"
  by code_simp

text \<open>
  Claim C10, amended. The extractor returns \<^verbatim>\<open>None\<close> for every input that is not a
  dictionary, and never \<^verbatim>\<open>None\<close> for a dictionary. For a dictionary of the shape
  \<open>rows_ok\<close> it returns a mapping whose keys are among the eight nutrient keys, the
  empty mapping when every row is unmatched; for any other dictionary it raises.
\<close>

theorem handle_nutrition_result:
  "(\<not> is_dict val \<longrightarrow> handle_nutrition val items result = Inr PNone) \<and>
   (val = PDict kvs \<longrightarrow>
      handle_nutrition val items result \<noteq> Inr PNone \<and>
      (rows_ok kvs \<longrightarrow>
         (\<exists>table. handle_nutrition val items result = Inr (PDict table) \<and>
                  fst ` set table \<subseteq> nutrient_keys)) \<and>
      (\<not> rows_ok kvs \<longrightarrow> (\<exists>e. handle_nutrition val items result = Inl e)) \<and>
      (py_iter (items_get kvs ''rows'' (PList [])) = Inr rs \<and> list_all row_unmatched rs \<longrightarrow>
         handle_nutrition val items result = Inr (PDict [])))"
proof (intro conjI impI)
  assume "\<not> is_dict val"
  then show "handle_nutrition val items result = Inr PNone"
    by (simp add: handle_nutrition_def)
next
  assume v: "val = PDict kvs"
  show "handle_nutrition val items result \<noteq> Inr PNone"
    using v by (auto simp: handle_nutrition_def bindE_def split: sum.splits)
next
  assume v: "val = PDict kvs" and ok: "rows_ok kvs"
  then obtain rs' where rs: "py_iter (items_get kvs ''rows'' (PList [])) = Inr rs'"
    "list_all row_ok rs'"
    by (auto simp: rows_ok_def split: sum.splits)
  from nutrition_rows_ok [OF rs(2), of "[]"] obtain t where
    "nutrition_rows rs' [] = Inr t" "fst ` set t \<subseteq> nutrient_keys" by auto
  with v rs show "\<exists>table. handle_nutrition val items result = Inr (PDict table) \<and>
                  fst ` set table \<subseteq> nutrient_keys"
    by (simp add: handle_nutrition_def bindE_def)
next
  assume v: "val = PDict kvs" and bad: "\<not> rows_ok kvs"
  show "\<exists>e. handle_nutrition val items result = Inl e"
  proof (cases "py_iter (items_get kvs ''rows'' (PList []))")
    case (Inl e)
    with v show ?thesis by (simp add: handle_nutrition_def bindE_def)
  next
    case (Inr rs')
    with bad have "\<not> list_all row_ok rs'" by (simp add: rows_ok_def)
    from nutrition_rows_bad [OF this, of "[]"] obtain e where "nutrition_rows rs' [] = Inl e"
      by blast
    with v Inr show ?thesis by (simp add: handle_nutrition_def bindE_def)
  qed
next
  assume v: "val = PDict kvs"
    and u: "py_iter (items_get kvs ''rows'' (PList [])) = Inr rs \<and> list_all row_unmatched rs"
  then show "handle_nutrition val items result = Inr (PDict [])"
    by (simp add: handle_nutrition_def bindE_def nutrition_rows_unmatched)
qed

theorem handle_nutrition_result_witness:
  "handle_nutrition (PStr []) [] (PDict []) = Inr PNone \<and>
   handle_nutrition (PDict [(''rows'', PList [PDict [(''rowLabel'', PStr ''Otro'')]])]) []
     (PDict []) = Inr (PDict []) \<and>
   (\<exists>table. handle_nutrition
               (PDict [(''rows'', PList [PDict [(''rowLabel'', PStr ''Sal''),
                  (''cells'', PList [PDict [(''value'', PFloat 1),
                                            (''unitOfMeasure'', PStr ''g'')]])]])]) []
               (PDict []) = Inr (PDict table) \<and> fst ` set table \<subseteq> nutrient_keys) \<and>
   (\<exists>e. handle_nutrition (PDict [(''rows'', PInt 5)]) [] (PDict []) = Inl e)"
proof -
  let ?r1 = "[PDict [(''rowLabel'', PStr ''Otro'')]]"
  let ?r2 = "[PDict [(''rowLabel'', PStr ''Sal''),
                  (''cells'', PList [PDict [(''value'', PFloat 1),
                                            (''unitOfMeasure'', PStr ''g'')]])]]"
  have a: "handle_nutrition (PStr []) [] (PDict []) = Inr PNone"
    using handle_nutrition_result [where val = "PStr []" and items = "[]" and result = "PDict []"]
    by simp
  have b: "handle_nutrition (PDict [(''rows'', PList ?r1)]) [] (PDict []) = Inr (PDict [])"
    using handle_nutrition_result [where val = "PDict [(''rows'', PList ?r1)]"
            and kvs = "[(''rows'', PList ?r1)]" and rs = ?r1 and items = "[]"
            and result = "PDict []"]
    by (simp add: items_get_def row_unmatched_def nutrition_fields_def)
  have c: "\<exists>table. handle_nutrition (PDict [(''rows'', PList ?r2)]) [] (PDict [])
                     = Inr (PDict table) \<and> fst ` set table \<subseteq> nutrient_keys"
    using handle_nutrition_result [where val = "PDict [(''rows'', PList ?r2)]"
            and kvs = "[(''rows'', PList ?r2)]" and items = "[]" and result = "PDict []"]
    by (simp add: items_get_def rows_ok_def row_ok_def cells_ok_def nutrition_fields_def)
  have d: "\<exists>e. handle_nutrition (PDict [(''rows'', PInt 5)]) [] (PDict []) = Inl e"
    using handle_nutrition_result [where val = "PDict [(''rows'', PInt 5)]"
            and kvs = "[(''rows'', PInt 5)]" and items = "[]" and result = "PDict []"]
    by (simp add: items_get_def rows_ok_def)
  show ?thesis using a b c d by blast
qed

section \<open>The record assembler: properties\<close>

text \<open>
  Claim C4 (the per-field loop always produces a complete record; no exception crosses
  the boundary). On a document whose \<^verbatim>\<open>kgGross\<close> is null and that has no
  \<^verbatim>\<open>contentSize\<close>, the loop raises \<^verbatim>\<open>ValueError\<close> at the twelfth field and
  produces no record.
\<close>

theorem extract_fields_null_kg_gross_raises:
  "extract_fields False (selling_price_doc [(''kgGross'', PNone)]) = Inl ValueError"
  by code_simp

theorem extract_fields_null_kg_gross_raises_witness:
  "\<not> (\<exists>r. extract_fields False (selling_price_doc [(''kgGross'', PNone)]) = Inr r)"
  using extract_fields_null_kg_gross_raises by simp

lemma example_doc_record: "extract_fields False example_doc = Inr (example_record, True)"
  by code_simp

lemma assemble_field_flag:
  "record_of (assemble_field result (items, c) f) = record_of (assemble_field result (items, c') f)"
  by (auto simp: assemble_field_def record_of_def bindE_def split: sum.splits option.splits)

lemma assemble_field_cases:
  "(\<exists>e. assemble_field result (items, c) f = Inl e \<and> assemble_field result (items, c') f = Inl e) \<or>
   (\<exists>items1 c1 c1'. assemble_field result (items, c) f = Inr (items1, c1) \<and>
                     assemble_field result (items, c') f = Inr (items1, c1'))"
  using assemble_field_flag [of result items c f c']
  by (cases "assemble_field result (items, c) f"; cases "assemble_field result (items, c') f")
     (auto simp: record_of_def)

lemma assemble_fields_flag:
  "record_of (assemble_fields result (items, c) fs) = record_of (assemble_fields result (items, c') fs)"
proof (induction fs arbitrary: items c c')
  case Nil
  then show ?case by (simp add: record_of_def)
next
  case (Cons f fs)
  from assemble_field_cases [of result items c f c'] show ?case
  proof
    assume "\<exists>e. assemble_field result (items, c) f = Inl e \<and> assemble_field result (items, c') f = Inl e"
    then show ?thesis by (auto simp: bindE_def)
  next
    assume "\<exists>items1 c1 c1'. assemble_field result (items, c) f = Inr (items1, c1) \<and>
                     assemble_field result (items, c') f = Inr (items1, c1')"
    then obtain items1 c1 c1' where "assemble_field result (items, c) f = Inr (items1, c1)"
      "assemble_field result (items, c') f = Inr (items1, c1')" by blast
    then show ?thesis using Cons.IH [of items1 c1 c1'] by (simp add: bindE_def)
  qed
qed


text \<open>
  Claim C9. The state of the pass is the record in progress and the module-level flag
  \<^verbatim>\<open>CALCULATED\<close>; the pass reads no clock. The record that the pass produces, or
  the exception that it raises, is the same for both values of the flag at its start. So
  a second run on the same document, started with the flag \<open>c1\<close> that the first run left,
  produces the same record.
\<close>

theorem extract_fields_deterministic:
  "record_of (extract_fields c result) = record_of (extract_fields c' result) \<and>
   (extract_fields c result = Inr (items, c1) \<longrightarrow>
      record_of (extract_fields c1 result) = Inr items)"
proof
  show a: "record_of (extract_fields c result) = record_of (extract_fields c' result)" for c c'
    by (simp add: extract_fields_def assemble_fields_flag)
  show "extract_fields c result = Inr (items, c1) \<longrightarrow>
      record_of (extract_fields c1 result) = Inr items"
    using a [of c1 c] by (auto simp: record_of_def)
qed

theorem extract_fields_deterministic_witness:
  "record_of (extract_fields False example_doc) = record_of (extract_fields True example_doc) \<and>
   extract_fields False example_doc = Inr (example_record, True) \<and>
   record_of (extract_fields True example_doc) = Inr example_record"
  using extract_fields_deterministic [of False example_doc True example_record True]
        example_doc_record
  by simp




























end
